theory Spec2Isabelle
  imports Complex_Main "HOL-Library.Signed_Division"
begin

section \<open>Decimal numbers of the imported decimal package\<close>

text \<open>
  The source imports \<^verbatim>\<open>github.com/shopspring/decimal\<close> and uses its
  \<^verbatim>\<open>NewFromString\<close>, \<^verbatim>\<open>NewFromFloat\<close>, \<^verbatim>\<open>Mul\<close>,
  \<^verbatim>\<open>Sub\<close>, \<^verbatim>\<open>Add\<close> and \<^verbatim>\<open>Div\<close>. The package is not part of
  the source; the definitions of this section follow its documented behaviour: a
  \<^verbatim>\<open>Decimal\<close> is an arbitrary-precision integer \<^verbatim>\<open>value\<close> and an exponent
  \<^verbatim>\<open>exp\<close>, standing for \<open>value * 10 ^ exp\<close>; \<^verbatim>\<open>Mul\<close>, \<^verbatim>\<open>Add\<close> and
  \<^verbatim>\<open>Sub\<close> are exact; \<^verbatim>\<open>Div\<close> is \<^verbatim>\<open>DivRound\<close> at
  \<^verbatim>\<open>DivisionPrecision = 16\<close> digits after the decimal point, rounding half away from
  zero. The exponent is an \<^verbatim>\<open>int32\<close> in the package, which panics when the
  exponent of a product leaves that range; here it is an unbounded integer, and only
  the parser's own range check is kept.
\<close>

record Decimal =
  dvalue :: int
  dexp :: int

text \<open>The number a \<^verbatim>\<open>Decimal\<close> stands for.\<close>

definition dec_val :: "Decimal \<Rightarrow> rat" where
  "dec_val d = of_int (dvalue d) * 10 powi (dexp d)"

text \<open>The zero value \<^verbatim>\<open>Decimal{}\<close>, returned beside every error.\<close>

definition Decimal_zero :: Decimal where
  "Decimal_zero = \<lparr>dvalue = 0, dexp = 0\<rparr>"

definition New :: "int \<Rightarrow> int \<Rightarrow> Decimal" where
  "New v e = \<lparr>dvalue = v, dexp = e\<rparr>"

datatype error = ParseError string

subsection \<open>Parsing\<close>

definition is_digit :: "char \<Rightarrow> bool" where
  "is_digit c = (c \<in> set ''0123456789'')"

definition digit_val :: "char \<Rightarrow> nat" where
  "digit_val c = of_char c - 48"

text \<open>A non-empty run of decimal digits, read most significant digit first.\<close>

fun digits_val :: "nat \<Rightarrow> string \<Rightarrow> nat" where
  "digits_val acc [] = acc"
| "digits_val acc (c # cs) = digits_val (10 * acc + digit_val c) cs"

definition parse_digits :: "string \<Rightarrow> nat option" where
  "parse_digits s =
     (if s \<noteq> [] \<and> list_all is_digit s then Some (digits_val 0 s) else None)"

text \<open>
  \<^verbatim>\<open>strconv.ParseInt(s, 10, _)\<close> and \<^verbatim>\<open>big.Int.SetString(s, 10)\<close>: an optional
  sign, then digits only.
\<close>

definition parse_int :: "string \<Rightarrow> int option" where
  "parse_int s =
     (case s of
        [] \<Rightarrow> None
      | c # cs \<Rightarrow>
          if c = CHR ''+'' then map_option int (parse_digits cs)
          else if c = CHR ''-'' then map_option (\<lambda>n. - int n) (parse_digits cs)
          else map_option int (parse_digits s))"

definition is_exp_mark :: "char \<Rightarrow> bool" where
  "is_exp_mark c = (c = CHR ''E'' \<or> c = CHR ''e'')"

definition MinInt32 :: int where "MinInt32 = - 2147483648"
definition MaxInt32 :: int where "MaxInt32 = 2147483647"

text \<open>
  \<^verbatim>\<open>NewFromString\<close>: the text after the first \<^verbatim>\<open>E\<close> or \<^verbatim>\<open>e\<close>, when there
  is one, is the exponent (a 32-bit integer); the text before it holds at most one
  point, and with the point taken out it is the integer \<^verbatim>\<open>value\<close>; every digit
  after the point lowers the exponent by one.
\<close>

definition NewFromString :: "string \<Rightarrow> error + Decimal" where
  "NewFromString s =
     (let mant = takeWhile (\<lambda>c. \<not> is_exp_mark c) s;
          rest = dropWhile (\<lambda>c. \<not> is_exp_mark c) s;
          expo = (if rest = [] then Some 0 else parse_int (tl rest))
      in case expo of
           None \<Rightarrow> Inl (ParseError s)
         | Some e0 \<Rightarrow>
             if e0 < MinInt32 \<or> MaxInt32 < e0 then Inl (ParseError s)
             else if 1 < length (filter (\<lambda>c. c = CHR ''.'') mant) then Inl (ParseError s)
             else
               (let intString = filter (\<lambda>c. c \<noteq> CHR ''.'') mant;
                   frac = dropWhile (\<lambda>c. c \<noteq> CHR ''.'') mant;
                   e = e0 - (if frac = [] then 0 else int (length (tl frac)))
               in case parse_int intString of
                    None \<Rightarrow> Inl (ParseError s)
                  | Some v \<Rightarrow>
                      if e < MinInt32 \<or> MaxInt32 < e then Inl (ParseError s)
                      else Inr \<lparr>dvalue = v, dexp = e\<rparr>))"

text \<open>
  \<^verbatim>\<open>value, _ := decimal.NewFromString(s)\<close>: the error is dropped and the value
  returned beside it, \<^verbatim>\<open>Decimal{}\<close>, is used.
\<close>

definition NewFromString_ignore_err :: "string \<Rightarrow> Decimal" where
  "NewFromString_ignore_err s =
     (case NewFromString s of Inl e \<Rightarrow> Decimal_zero | Inr d \<Rightarrow> d)"

text \<open>
  \<^verbatim>\<open>decimal.NewFromFloat\<close> is called by the source on the float64 literals
  \<^verbatim>\<open>100\<close> and \<^verbatim>\<open>0\<close> only. Floating point is not modelled: both literals are
  integers that float64 holds exactly, and the package returns the shortest decimal
  that reads back as the float, \<open>1 * 10 ^ 2\<close> and \<open>0\<close>.
\<close>

definition NewFromFloat_100 :: Decimal where
  "NewFromFloat_100 = \<lparr>dvalue = 1, dexp = 2\<rparr>"

definition NewFromFloat_0 :: Decimal where
  "NewFromFloat_0 = \<lparr>dvalue = 0, dexp = 0\<rparr>"

subsection \<open>Arithmetic\<close>

text \<open>
  \<^verbatim>\<open>rescale\<close> moves a decimal to another exponent: to a smaller one by
  multiplying the value, exactly; to a larger one by a truncating division.
\<close>

definition rescale :: "Decimal \<Rightarrow> int \<Rightarrow> Decimal" where
  "rescale d e =
     (if dexp d = e then d
      else if dexp d < e then \<lparr>dvalue = dvalue d sdiv 10 ^ nat (e - dexp d), dexp = e\<rparr>
      else \<lparr>dvalue = dvalue d * 10 ^ nat (dexp d - e), dexp = e\<rparr>)"

definition Mul :: "Decimal \<Rightarrow> Decimal \<Rightarrow> Decimal" where
  "Mul d d2 = \<lparr>dvalue = dvalue d * dvalue d2, dexp = dexp d + dexp d2\<rparr>"

definition Add :: "Decimal \<Rightarrow> Decimal \<Rightarrow> Decimal" where
  "Add d d2 =
     (let baseScale = min (dexp d) (dexp d2);
          rd = rescale d baseScale;
          rd2 = rescale d2 baseScale
      in \<lparr>dvalue = dvalue rd + dvalue rd2, dexp = dexp rd\<rparr>)"

definition Sub :: "Decimal \<Rightarrow> Decimal \<Rightarrow> Decimal" where
  "Sub d d2 =
     (let baseScale = min (dexp d) (dexp d2);
          rd = rescale d baseScale;
          rd2 = rescale d2 baseScale
      in \<lparr>dvalue = dvalue rd - dvalue rd2, dexp = dexp rd\<rparr>)"

definition Abs :: "Decimal \<Rightarrow> Decimal" where
  "Abs d = \<lparr>dvalue = \<bar>dvalue d\<bar>, dexp = dexp d\<rparr>"

definition Cmp :: "Decimal \<Rightarrow> Decimal \<Rightarrow> int" where
  "Cmp d d2 =
     (let baseScale = min (dexp d) (dexp d2);
          a = dvalue (rescale d baseScale);
          b = dvalue (rescale d2 baseScale)
      in if a < b then - 1 else if a = b then 0 else 1)"

text \<open>
  \<^verbatim>\<open>QuoRem\<close>: quotient and remainder of a truncating integer division, the quotient
  a multiple of \<open>10 ^ (- precision)\<close>. The package panics on a zero divisor; the
  source divides by \<^verbatim>\<open>NewFromFloat(100)\<close> only.
\<close>

definition QuoRem :: "Decimal \<Rightarrow> Decimal \<Rightarrow> int \<Rightarrow> Decimal \<times> Decimal" where
  "QuoRem d d2 precision =
     (let scale = - precision;
          e = dexp d - dexp d2 - scale;
          aa = (if e < 0 then dvalue d else dvalue d * 10 ^ nat e);
          bb = (if e < 0 then dvalue d2 * 10 ^ nat (- e) else dvalue d2);
          scalerest = (if e < 0 then dexp d else scale + dexp d2)
      in (\<lparr>dvalue = aa sdiv bb, dexp = scale\<rparr>, \<lparr>dvalue = aa smod bb, dexp = scalerest\<rparr>))"

text \<open>
  \<^verbatim>\<open>DivRound\<close>: the quotient of \<^verbatim>\<open>QuoRem\<close>, moved by one unit of the last
  digit away from zero when twice the remainder is not below the divisor.
  \<^verbatim>\<open>Div\<close> is \<^verbatim>\<open>d.DivRound(d2, int32(DivisionPrecision))\<close>, and the package
  sets \<^verbatim>\<open>DivisionPrecision\<close> to 16.
\<close>

definition DivRound :: "Decimal \<Rightarrow> Decimal \<Rightarrow> int \<Rightarrow> Decimal" where
  "DivRound d d2 precision =
     (let (q, r) = QuoRem d d2 precision;
          r2 = \<lparr>dvalue = \<bar>dvalue r\<bar> * 2, dexp = dexp r + precision\<rparr>;
          c = Cmp r2 (Abs d2)
      in if c < 0 then q
         else if sgn (dvalue d) * sgn (dvalue d2) < 0 then Sub q (New 1 (- precision))
         else Add q (New 1 (- precision)))"

definition DivisionPrecision :: int where
  "DivisionPrecision = 16"

definition Div :: "Decimal \<Rightarrow> Decimal \<Rightarrow> Decimal" where
  "Div d d2 = DivRound d d2 DivisionPrecision"

section \<open>Tax and discount\<close>

text \<open>
  Modelled from the spec: the types \<^verbatim>\<open>Tax\<close> and \<^verbatim>\<open>Discount\<close> with their
  methods \<^verbatim>\<open>Prepare\<close>, \<^verbatim>\<open>getTax\<close> and \<^verbatim>\<open>getDiscount\<close>, and the constants
  \<^verbatim>\<open>TaxTypeAmount\<close> and \<^verbatim>\<open>DiscountTypeAmount\<close>, which the source uses and does
  not hold. The spec gives each a kind (Amount or Percent), fixed at construction,
  and a magnitude that is a decimal parsed from a string in the preparation step of
  the owning item; the getter returns the kind and the magnitude.
\<close>

text \<open>Modelled from the spec: the kinds of a tax, Amount and Percent.\<close>

datatype TaxType = TaxTypeAmount | TaxTypePercent

text \<open>Modelled from the spec: the kinds of a discount, Amount and Percent.\<close>

datatype DiscountType = DiscountTypeAmount | DiscountTypePercent

text \<open>
  Modelled from the spec: the struct \<^verbatim>\<open>Tax\<close>, with the kind, the magnitude as
  the caller writes it and the magnitude as preparation parsed it.
\<close>

record Tax =
  tax_kind :: TaxType
  tax_source :: string
  tax_magnitude :: Decimal

text \<open>Modelled from the spec: the struct \<^verbatim>\<open>Discount\<close>, alike.\<close>

record Discount =
  discount_kind :: DiscountType
  discount_source :: string
  discount_magnitude :: Decimal

text \<open>Modelled from the spec: \<^verbatim>\<open>(*Tax).Prepare\<close>, missing from the source.\<close>

definition Tax_Prepare :: "Tax \<Rightarrow> error option \<times> Tax" where
  "Tax_Prepare t =
     (case NewFromString (tax_source t) of
        Inl e \<Rightarrow> (Some e, t)
      | Inr m \<Rightarrow> (None, t\<lparr>tax_magnitude := m\<rparr>))"

text \<open>Modelled from the spec: \<^verbatim>\<open>(*Discount).Prepare\<close>, missing from the source.\<close>

definition Discount_Prepare :: "Discount \<Rightarrow> error option \<times> Discount" where
  "Discount_Prepare d =
     (case NewFromString (discount_source d) of
        Inl e \<Rightarrow> (Some e, d)
      | Inr m \<Rightarrow> (None, d\<lparr>discount_magnitude := m\<rparr>))"

text \<open>Modelled from the spec: \<^verbatim>\<open>(*Tax).getTax\<close>, missing from the source.\<close>

definition getTax :: "Tax \<Rightarrow> TaxType \<times> Decimal" where
  "getTax t = (tax_kind t, tax_magnitude t)"

text \<open>Modelled from the spec: \<^verbatim>\<open>(*Discount).getDiscount\<close>, missing from the source.\<close>

definition getDiscount :: "Discount \<Rightarrow> DiscountType \<times> Decimal" where
  "getDiscount d = (discount_kind d, discount_magnitude d)"

section \<open>Items\<close>

text \<open>
  The struct \<^verbatim>\<open>Item\<close>. The pointers \<^verbatim>\<open>*Tax\<close> and \<^verbatim>\<open>*Discount\<close> are options
  (\<^verbatim>\<open>nil\<close> is \<open>None\<close>); the unexported fields \<^verbatim>\<open>_unitCost\<close> and
  \<^verbatim>\<open>_quantity\<close> are \<open>priv_unitCost\<close> and \<open>priv_quantity\<close>.
\<close>

record Item =
  Name :: string
  Description :: string
  UnitCost :: string
  Quantity :: string
  Tax :: "Tax option"
  Discount :: "Discount option"
  Total :: string
  priv_unitCost :: Decimal
  priv_quantity :: Decimal

text \<open>
  \<^verbatim>\<open>Prepare\<close> has a pointer receiver: it returns the error and leaves its
  assignments in the item, also when it returns early. The model returns the error
  (\<open>None\<close> for \<^verbatim>\<open>nil\<close>) and the item as the call leaves it.
\<close>

definition Prepare_Discount :: "Item \<Rightarrow> error option \<times> Item" where
  "Prepare_Discount i =
     (case Discount i of
        None \<Rightarrow> (None, i)
      | Some d \<Rightarrow>
          (case Discount_Prepare d of
             (Some err, d') \<Rightarrow> (Some err, i\<lparr>Discount := Some d'\<rparr>)
           | (None, d') \<Rightarrow> (None, i\<lparr>Discount := Some d'\<rparr>)))"

definition Prepare_Tax :: "Item \<Rightarrow> error option \<times> Item" where
  "Prepare_Tax i =
     (case Tax i of
        None \<Rightarrow> Prepare_Discount i
      | Some t \<Rightarrow>
          (case Tax_Prepare t of
             (Some err, t') \<Rightarrow> (Some err, i\<lparr>Tax := Some t'\<rparr>)
           | (None, t') \<Rightarrow> Prepare_Discount (i\<lparr>Tax := Some t'\<rparr>)))"

definition Prepare :: "Item \<Rightarrow> error option \<times> Item" where
  "Prepare i =
     (case NewFromString (UnitCost i) of
        Inl err \<Rightarrow> (Some err, i)
      | Inr unitCost \<Rightarrow>
          (let i1 = i\<lparr>priv_unitCost := unitCost\<rparr>
           in case NewFromString (Quantity i1) of
                Inl err \<Rightarrow> (Some err, i1)
              | Inr quantity \<Rightarrow> Prepare_Tax (i1\<lparr>priv_quantity := quantity\<rparr>)))"

text \<open>
  The \<^verbatim>\<open>Prepare\<close> of \<^verbatim>\<open>src/item.go\<close>, where the four lines that parse the
  quantity are commented out.
\<close>

definition Prepare_item_go :: "Item \<Rightarrow> error option \<times> Item" where
  "Prepare_item_go i =
     (case NewFromString (UnitCost i) of
        Inl err \<Rightarrow> (Some err, i)
      | Inr unitCost \<Rightarrow> Prepare_Tax (i\<lparr>priv_unitCost := unitCost\<rparr>))"

definition TotalWithoutTaxAndWithoutDiscount :: "Item \<Rightarrow> Decimal" where
  "TotalWithoutTaxAndWithoutDiscount i =
     (let quantity = NewFromString_ignore_err (Quantity i);
          price = NewFromString_ignore_err (UnitCost i);
          total = Mul price quantity
      in total)"

definition TotalWithoutTaxAndWithDiscount :: "Item \<Rightarrow> Decimal" where
  "TotalWithoutTaxAndWithDiscount i =
     (let total = TotalWithoutTaxAndWithoutDiscount i
      in case Discount i of
           None \<Rightarrow> total
         | Some d \<Rightarrow>
             (let (dType, dNum) = getDiscount d
              in if dType = DiscountTypeAmount then Sub total dNum
                 else (let toSub = Mul total (Div dNum NewFromFloat_100)
                       in Sub total toSub)))"

definition TaxWithTotalDiscounted :: "Item \<Rightarrow> Decimal" where
  "TaxWithTotalDiscounted i =
     (let result = NewFromFloat_0
      in case Tax i of
           None \<Rightarrow> result
         | Some t \<Rightarrow>
             (let totalHT = TotalWithoutTaxAndWithDiscount i;
                  (taxType, taxAmount) = getTax t
              in if taxType = TaxTypeAmount then taxAmount
                 else (let divider = NewFromFloat_100
                       in Mul totalHT (Div taxAmount divider))))"

definition TotalWithTaxAndDiscount :: "Item \<Rightarrow> Decimal" where
  "TotalWithTaxAndDiscount i =
     Add (TotalWithoutTaxAndWithDiscount i) (TaxWithTotalDiscounted i)"

section \<open>Row layout\<close>

text \<open>
  Modelled from the spec: the page-drawing primitive \<^verbatim>\<open>doc.pdf\<close> (the imported
  package \<^verbatim>\<open>gofpdf\<close>), the types \<^verbatim>\<open>Document\<close> and \<^verbatim>\<open>Options\<close>, the
  text-encoding adapter \<^verbatim>\<open>doc.encodeString\<close> and the money formatter
  \<^verbatim>\<open>doc.ac.FormatMoneyDecimal\<close>, which the source uses and does not hold. The
  spec gives the primitive a vertical cursor, a call that draws wrapped text of a
  given width and line height and moves the cursor below it, and a call that draws a
  single-line boxed cell of a given width and height; the adapter and the formatter
  are opaque functions. Coordinates are float64 in the source and exact rationals
  here; page breaks are not modelled.
\<close>

text \<open>Modelled from the spec: what the primitive has drawn.\<close>

datatype Placement =
    Wrapped rat rat rat rat string
  | Boxed rat rat rat rat string

text \<open>
  \<open>Wrapped x y w h txt\<close>: text wrapped at width \<open>w\<close> with lines of height \<open>h\<close>, from
  \<open>(x, y)\<close>. \<open>Boxed x y w h txt\<close>: a cell of width \<open>w\<close> and height \<open>h\<close> at
  \<open>(x, y)\<close>. \<open>pdf_wrap sz w txt\<close> is the number of lines that \<open>txt\<close> takes at
  width \<open>w\<close> in a font of that size.
\<close>

text \<open>
  Modelled from the spec: the state of the primitive, with the position, the left
  margin, the font, the text colour, the wrapping of the font and the placements
  drawn so far.
\<close>

record Fpdf =
  pdf_x :: rat
  pdf_y :: rat
  pdf_lMargin :: rat
  pdf_fontFamily :: string
  pdf_fontStyle :: string
  pdf_fontSize :: rat
  pdf_textColor :: "int \<times> int \<times> int"
  pdf_wrap :: "rat \<Rightarrow> rat \<Rightarrow> string \<Rightarrow> nat"
  pdf_out :: "Placement list"

text \<open>Modelled from the spec: \<^verbatim>\<open>GetY\<close> reads the vertical cursor.\<close>

definition GetY :: "Fpdf \<Rightarrow> rat" where
  "GetY f = pdf_y f"

text \<open>Modelled from the spec: \<^verbatim>\<open>SetX\<close> sets the horizontal position.\<close>

definition SetX :: "Fpdf \<Rightarrow> rat \<Rightarrow> Fpdf" where
  "SetX f x = f\<lparr>pdf_x := x\<rparr>"

text \<open>
  Modelled from the spec: \<^verbatim>\<open>SetY\<close> sets the vertical cursor; as in the package, the
  horizontal position goes back to the left margin.
\<close>

definition SetY :: "Fpdf \<Rightarrow> rat \<Rightarrow> Fpdf" where
  "SetY f y = f\<lparr>pdf_x := pdf_lMargin f, pdf_y := y\<rparr>"

text \<open>Modelled from the spec: \<^verbatim>\<open>SetFont\<close> selects family, style and size.\<close>

definition SetFont :: "Fpdf \<Rightarrow> string \<Rightarrow> string \<Rightarrow> rat \<Rightarrow> Fpdf" where
  "SetFont f familyStr styleStr sz =
     f\<lparr>pdf_fontFamily := familyStr, pdf_fontStyle := styleStr, pdf_fontSize := sz\<rparr>"

text \<open>Modelled from the spec: \<^verbatim>\<open>SetTextColor\<close> selects the text colour.\<close>

definition SetTextColor :: "Fpdf \<Rightarrow> int \<Rightarrow> int \<Rightarrow> int \<Rightarrow> Fpdf" where
  "SetTextColor f r g b = f\<lparr>pdf_textColor := (r, g, b)\<rparr>"

text \<open>
  Modelled from the spec: \<^verbatim>\<open>MultiCell\<close> draws wrapped text from the current
  position and leaves the cursor below the last line, at the left margin.
\<close>

definition MultiCell :: "Fpdf \<Rightarrow> rat \<Rightarrow> rat \<Rightarrow> string \<Rightarrow> Fpdf" where
  "MultiCell f w h txt =
     f\<lparr>pdf_x := pdf_lMargin f,
       pdf_y := pdf_y f + h * of_nat (pdf_wrap f (pdf_fontSize f) w txt),
       pdf_out := pdf_out f @ [Wrapped (pdf_x f) (pdf_y f) w h txt]\<rparr>"

text \<open>
  Modelled from the spec: \<^verbatim>\<open>CellFormat\<close> as the source calls it, with
  \<^verbatim>\<open>ln = 0\<close>: it draws a boxed cell at the current position; after the cell the
  position moves to its right and the vertical cursor stays.
\<close>

definition CellFormat :: "Fpdf \<Rightarrow> rat \<Rightarrow> rat \<Rightarrow> string \<Rightarrow> Fpdf" where
  "CellFormat f w h txt =
     f\<lparr>pdf_x := pdf_x f + w,
       pdf_out := pdf_out f @ [Boxed (pdf_x f) (pdf_y f) w h txt]\<rparr>"

text \<open>
  Modelled from the spec: the styling options that \<^verbatim>\<open>appendColTo\<close> reads; a colour
  is a triple, where the source indexes a slice at 0, 1 and 2.
\<close>

record Options =
  Font :: string
  GreyTextColor :: "int \<times> int \<times> int"
  BaseTextColor :: "int \<times> int \<times> int"

text \<open>
  Modelled from the spec: the document, with the primitive, the options, the
  text-encoding adapter and the money formatter.
\<close>

record Document =
  pdf :: Fpdf
  doc_Options :: Options
  encodeString :: "string \<Rightarrow> string"
  ac_FormatMoneyDecimal :: "Decimal \<Rightarrow> string"

text \<open>
  The package-level constants of the layout, which the source uses and does not
  hold, and the method \<^verbatim>\<open>String\<close> of the decimal package, are parameters.
\<close>

record Env =
  ItemColNameOffset :: rat
  ItemColUnitPriceOffset :: rat
  ItemColQuantityOffset :: rat
  ItemColTotalHTOffset :: rat
  ItemColTaxOffset :: rat
  SmallTextFontSize :: rat
  BaseTextFontSize :: rat
  Decimal_String :: "Decimal \<Rightarrow> string"

text \<open>The block of \<^verbatim>\<open>appendColTo\<close> under \<^verbatim>\<open>if len(i.Description) > 0\<close>.\<close>

definition appendDescription :: "Env \<Rightarrow> Item \<Rightarrow> Document \<Rightarrow> Fpdf \<Rightarrow> Fpdf" where
  "appendDescription env i doc f =
     (let f1 = SetX f (ItemColNameOffset env);
          f2 = SetY f1 (GetY f1 + 1);
          f3 = SetFont f2 (Font (doc_Options doc)) [] (SmallTextFontSize env);
          f4 = (case GreyTextColor (doc_Options doc) of (r, g, b) \<Rightarrow> SetTextColor f3 r g b);
          f5 = MultiCell f4 (ItemColUnitPriceOffset env - ItemColNameOffset env) 3
                 (encodeString doc (Description i));
          f6 = SetFont f5 (Font (doc_Options doc)) [] (BaseTextFontSize env)
      in case BaseTextColor (doc_Options doc) of (r, g, b) \<Rightarrow> SetTextColor f6 r g b)"

text \<open>
  \<^verbatim>\<open>appendColTo\<close> draws through the pointer \<^verbatim>\<open>doc\<close>; the model returns the
  document as the call leaves it.
\<close>

definition appendColTo :: "Env \<Rightarrow> Item \<Rightarrow> Options \<Rightarrow> Document \<Rightarrow> Document" where
  "appendColTo env i options doc =
     (let baseY = GetY (pdf doc);
          f1 = SetX (pdf doc) (ItemColNameOffset env);
          f2 = MultiCell f1 (ItemColUnitPriceOffset env - ItemColNameOffset env) 3
                 (encodeString doc (Name i));
          f3 = (if 0 < length (Description i) then appendDescription env i doc f2 else f2);
          colHeight = GetY f3 - baseY;
          f4 = SetY f3 baseY;
          f5 = SetX f4 (ItemColUnitPriceOffset env);
          f6 = CellFormat f5 (ItemColQuantityOffset env - ItemColUnitPriceOffset env) colHeight
                 (encodeString doc (ac_FormatMoneyDecimal doc (priv_unitCost i)));
          f7 = SetX f6 (ItemColQuantityOffset env);
          f8 = CellFormat f7 (ItemColTaxOffset env - ItemColQuantityOffset env) colHeight
                 (encodeString doc (Decimal_String env (priv_quantity i)));
          f9 = SetX f8 (ItemColTotalHTOffset env);
          f10 = CellFormat f9 (ItemColTaxOffset env - ItemColTotalHTOffset env) colHeight
                  (encodeString doc (Total i));
          f11 = SetY f10 (baseY + colHeight)
      in doc\<lparr>pdf := f11\<rparr>)"

text \<open>The boxed cells among the placements, in drawing order.\<close>

fun boxed_cells :: "Placement list \<Rightarrow> (rat \<times> rat \<times> rat \<times> rat \<times> string) list" where
  "boxed_cells [] = []"
| "boxed_cells (Wrapped x y w h txt # ps) = boxed_cells ps"
| "boxed_cells (Boxed x y w h txt # ps) = (x, y, w, h, txt) # boxed_cells ps"

text \<open>
  The vertical extent of the name-plus-description block of an item drawn on \<open>doc\<close>:
  the wrapped name at line height 3 in the current font and, under a non-empty
  description, a gap of 1 and the wrapped description at line height 3 in the small
  font.
\<close>

definition block_height :: "Env \<Rightarrow> Item \<Rightarrow> Document \<Rightarrow> rat" where
  "block_height env i doc =
     (let w = ItemColUnitPriceOffset env - ItemColNameOffset env;
          wrap = pdf_wrap (pdf doc)
      in 3 * of_nat (wrap (pdf_fontSize (pdf doc)) w (encodeString doc (Name i)))
         + (if Description i = [] then 0
            else 1 + 3 * of_nat (wrap (SmallTextFontSize env) w (encodeString doc (Description i)))))"

text \<open>
  The cells that a call boxes when it takes the document \<open>doc\<close> to \<open>doc'\<close>, and
  the text of a cell.
\<close>

definition row_cells :: "Document \<Rightarrow> Document \<Rightarrow> (rat \<times> rat \<times> rat \<times> rat \<times> string) list" where
  "row_cells doc doc' =
     drop (length (boxed_cells (pdf_out (pdf doc)))) (boxed_cells (pdf_out (pdf doc')))"

fun cell_text :: "rat \<times> rat \<times> rat \<times> rat \<times> string \<Rightarrow> string" where
  "cell_text (x, y, w, h, txt) = txt"

section \<open>Example inputs\<close>

text \<open>
  An item, a tax and a discount as a caller constructs them: the exported fields
  set, the unexported ones at the zero value.
\<close>

definition mk_tax :: "TaxType \<Rightarrow> string \<Rightarrow> Tax" where
  "mk_tax k src = \<lparr>tax_kind = k, tax_source = src, tax_magnitude = Decimal_zero\<rparr>"

definition mk_discount :: "DiscountType \<Rightarrow> string \<Rightarrow> Discount" where
  "mk_discount k src =
     \<lparr>discount_kind = k, discount_source = src, discount_magnitude = Decimal_zero\<rparr>"

definition mk_item :: "string \<Rightarrow> string \<Rightarrow> Tax option \<Rightarrow> Discount option \<Rightarrow> string \<Rightarrow> Item" where
  "mk_item uc qty tx dc tot =
     \<lparr>Name = ''item'', Description = [], UnitCost = uc, Quantity = qty,
      Tax = tx, Discount = dc, Total = tot,
      priv_unitCost = Decimal_zero, priv_quantity = Decimal_zero\<rparr>"

text \<open>Items of the scenarios used below, before preparation.\<close>

definition scenario1 :: Item where
  "scenario1 = mk_item ''10.00'' ''3'' None None []"

definition scenario2 :: Item where
  "scenario2 = mk_item ''100'' ''1'' (Some (mk_tax TaxTypePercent ''20''))
                 (Some (mk_discount DiscountTypePercent ''10'')) []"

definition ex_bad_quantity :: Item where
  "ex_bad_quantity = mk_item ''10'' ''abc'' None None []"

definition ex_tiny_percent :: Item where
  "ex_tiny_percent = mk_item ''1'' ''1'' None
                       (Some (mk_discount DiscountTypePercent ''0.000000000000001'')) []"

definition ex_flat_over :: Item where
  "ex_flat_over = mk_item ''10'' ''1'' None (Some (mk_discount DiscountTypeAmount ''15'')) []"

definition ex_percent_over :: Item where
  "ex_percent_over = mk_item ''10'' ''1'' (Some (mk_tax TaxTypePercent ''250''))
                       (Some (mk_discount DiscountTypePercent ''150'')) []"

definition ex_bad_unitCost :: Item where
  "ex_bad_unitCost = mk_item ''x'' ''3'' None None []"

definition ex_bad_tax :: Item where
  "ex_bad_tax = mk_item ''10'' ''3'' (Some (mk_tax TaxTypePercent ''20%''))
                  (Some (mk_discount DiscountTypeAmount ''5'')) []"

definition ex_bad_discount :: Item where
  "ex_bad_discount = mk_item ''10'' ''3'' (Some (mk_tax TaxTypePercent ''20''))
                       (Some (mk_discount DiscountTypeAmount ''1.2.3'')) []"

definition ex_bad_discount_no_tax :: Item where
  "ex_bad_discount_no_tax = mk_item ''10'' ''3'' None
                       (Some (mk_discount DiscountTypeAmount ''1.2.3'')) []"

definition ex_total_999 :: Item where
  "ex_total_999 = mk_item ''10'' ''3'' None None ''999''"

definition ex_total_1 :: Item where
  "ex_total_1 = mk_item ''10'' ''3'' None None ''1''"

text \<open>
  A page state with the cursor at 20 on which every text takes one line, and a
  document whose encoder and money formatter are the simplest possible.
\<close>

definition ex_env :: Env where
  "ex_env =
     \<lparr>ItemColNameOffset = 10, ItemColUnitPriceOffset = 80, ItemColQuantityOffset = 103,
      ItemColTotalHTOffset = 113, ItemColTaxOffset = 140,
      SmallTextFontSize = 7, BaseTextFontSize = 8,
      Decimal_String = (\<lambda>d. ''q'')\<rparr>"

definition ex_options :: Options where
  "ex_options = \<lparr>Font = ''Helvetica'', GreyTextColor = (82, 82, 82), BaseTextColor = (35, 35, 35)\<rparr>"

definition ex_doc :: Document where
  "ex_doc =
     \<lparr>pdf = \<lparr>pdf_x = 10, pdf_y = 20, pdf_lMargin = 10, pdf_fontFamily = ''Helvetica'',
             pdf_fontStyle = [], pdf_fontSize = 8, pdf_textColor = (35, 35, 35),
             pdf_wrap = (\<lambda>sz w txt. 1), pdf_out = []\<rparr>,
      doc_Options = ex_options,
      encodeString = (\<lambda>s. s),
      ac_FormatMoneyDecimal = (\<lambda>d. ''u'')\<rparr>"

text \<open>
  An item with a description, and a page on which a text takes three lines in the
  base font of size 8 and two lines in any other.
\<close>

definition ex_described :: Item where
  "ex_described = (mk_item ''10'' ''3'' None None ''30'')\<lparr>Description := ''two lines''\<rparr>"

definition ex_doc_wrapping :: Document where
  "ex_doc_wrapping =
     ex_doc\<lparr>pdf := (pdf ex_doc)\<lparr>pdf_wrap := (\<lambda>sz w txt. if sz = 8 then 3 else 2)\<rparr>\<rparr>"

section \<open>The value of decimal arithmetic\<close>

lemma pow10_split: "e \<le> k \<Longrightarrow> (10::rat) powi k = of_int (10 ^ nat (k - e)) * 10 powi e"
proof -
  assume h: "e \<le> k"
  have "(10::rat) powi k = 10 powi ((k - e) + e)" by simp
  also have "\<dots> = 10 powi (k - e) * 10 powi e" by (rule power_int_add) simp
  also have "10 powi (k - e) = (10::rat) ^ nat (k - e)" using h by (simp add: power_int_def)
  finally show ?thesis by simp
qed

lemma dec_val_Mul: "dec_val (Mul a b) = dec_val a * dec_val b"
  by (simp add: dec_val_def Mul_def power_int_add)

lemma dec_val_rescale: "e \<le> dexp d \<Longrightarrow> dec_val (rescale d e) = dec_val d"
  by (simp add: dec_val_def rescale_def pow10_split [of e "dexp d"])

lemma dexp_rescale: "dexp (rescale d e) = e"
  by (simp add: rescale_def)

lemma dec_val_Add: "dec_val (Add a b) = dec_val a + dec_val b"
proof -
  let ?m = "min (dexp a) (dexp b)"
  have "dec_val (Add a b) = of_int (dvalue (rescale a ?m) + dvalue (rescale b ?m)) * 10 powi ?m"
    by (simp add: Add_def Let_def dec_val_def dexp_rescale)
  also have "\<dots> = dec_val (rescale a ?m) + dec_val (rescale b ?m)"
    by (simp add: dec_val_def dexp_rescale algebra_simps)
  finally show ?thesis by (simp add: dec_val_rescale)
qed

lemma dec_val_Sub: "dec_val (Sub a b) = dec_val a - dec_val b"
proof -
  let ?m = "min (dexp a) (dexp b)"
  have "dec_val (Sub a b) = of_int (dvalue (rescale a ?m) - dvalue (rescale b ?m)) * 10 powi ?m"
    by (simp add: Sub_def Let_def dec_val_def dexp_rescale)
  also have "\<dots> = dec_val (rescale a ?m) - dec_val (rescale b ?m)"
    by (simp add: dec_val_def dexp_rescale algebra_simps)
  finally show ?thesis by (simp add: dec_val_rescale)
qed

lemma dec_val_hundred: "dec_val NewFromFloat_100 = 100"
  by (simp add: dec_val_def NewFromFloat_100_def)

lemma dec_val_zero: "dec_val NewFromFloat_0 = 0" "dec_val Decimal_zero = 0"
  by (simp_all add: dec_val_def NewFromFloat_0_def Decimal_zero_def)

lemma Div_hundred: 
  assumes "- 14 \<le> dexp d"
  shows "Div d NewFromFloat_100 = \<lparr>dvalue = dvalue d * 10 ^ nat (dexp d + 14), dexp = - 16\<rparr>"
proof -
  have q: "QuoRem d NewFromFloat_100 16 = (\<lparr>dvalue = dvalue d * 10 ^ nat (dexp d + 14), dexp = - 16\<rparr>,
      \<lparr>dvalue = 0, dexp = - 14\<rparr>)"
    using assms by (simp add: QuoRem_def NewFromFloat_100_def Let_def smod_int_alt_def add.commute)
  have c: "Cmp \<lparr>dvalue = 0, dexp = 2\<rparr> (Abs NewFromFloat_100) = - 1"
    by (simp add: Cmp_def Abs_def NewFromFloat_100_def rescale_def Let_def)
  show ?thesis
    by (simp add: Div_def DivRound_def DivisionPrecision_def q c)
qed

lemma dec_val_Div_hundred:
  assumes "- 14 \<le> dexp d"
  shows "dec_val (Div d NewFromFloat_100) = dec_val d / 100"
proof -
  define P :: rat where "P = 10 powi (- 16)"
  define n where "n = nat (dexp d + 14)"
  have a: "(10::rat) powi (dexp d) = of_int (10 ^ nat (dexp d - (- 14))) * 10 powi (- 14)"
    using assms by (intro pow10_split) simp
  have b: "(10::rat) powi (- 14) = of_int (10 ^ nat (- 14 - (- 16))) * 10 powi (- 16)"
    by (intro pow10_split) simp
  have c: "(10::rat) powi (dexp d) = 10 ^ n * (100 * P)"
    unfolding a b by (simp add: n_def P_def)
  have "dec_val (Div d NewFromFloat_100) = of_int (dvalue d) * 10 ^ n * P"
    by (simp add: Div_hundred [OF assms] dec_val_def n_def P_def)
  also have "\<dots> = dec_val d / 100"
    by (simp add: dec_val_def c)
  finally show ?thesis .
qed

lemma dexp_Div: "dexp (Div a b) = - 16"
  by (simp add: Div_def DivRound_def QuoRem_def DivisionPrecision_def Let_def Add_def Sub_def
      New_def dexp_rescale split: prod.splits)

text \<open>
  The rounding step of \<^verbatim>\<open>DivRound\<close> on integers: a truncated quotient, moved one
  away from zero when twice the remainder reaches the divisor, is within half a unit
  of the exact quotient.
\<close>

lemma round_half_core:
  fixes v bb :: int
  assumes "0 < bb"
  defines "res \<equiv> (if \<bar>v smod bb\<bar> * 2 < bb then v sdiv bb
                   else if v < 0 then v sdiv bb - 1 else v sdiv bb + 1)"
  shows "\<bar>res * bb - v\<bar> * 2 \<le> bb"
proof -
  have v: "v = v sdiv bb * bb + v smod bb" by (simp add: sdiv_mult_smod_eq)
  show ?thesis
  proof (cases "\<bar>v smod bb\<bar> * 2 < bb")
    case True
    then have "res * bb - v = - (v smod bb)" using v by (simp add: res_def)
    with True show ?thesis by simp
  next
    case False
    show ?thesis
    proof (cases "v < 0")
      case True
      then have r: "v smod bb \<le> 0" "- bb < v smod bb"
        using assms(1) smod_int_compares(3,4) [of v bb] by simp_all
      have "res * bb - v = - bb - v smod bb"
        using v False True by (simp add: res_def algebra_simps)
      with r False show ?thesis by simp
    next
      case nn: False
      then have r: "0 \<le> v smod bb" "v smod bb < bb"
        using assms(1) smod_int_compares(1,2) [of v bb] by simp_all
      have "res * bb - v = bb - v smod bb"
        using v False nn by (simp add: res_def algebra_simps)
      with r False show ?thesis by simp
    qed
  qed
qed

lemma Div_hundred_small:
  assumes "dexp d < - 14"
  shows "Div d NewFromFloat_100
           = \<lparr>dvalue = (let bb = 10 ^ nat (- dexp d - 14) in
                        if \<bar>dvalue d smod bb\<bar> * 2 < bb then dvalue d sdiv bb
                        else if dvalue d < 0 then dvalue d sdiv bb - 1 else dvalue d sdiv bb + 1),
              dexp = - 16\<rparr>"
proof -
  define k where "k = nat (- dexp d - 14)"
  have k: "nat (- (dexp d + 14)) = k" "nat (- 14 - dexp d) = k" "nat (- dexp d - 14) = k"
    by (simp_all add: k_def algebra_simps)
  have q: "QuoRem d NewFromFloat_100 16
             = (\<lparr>dvalue = dvalue d sdiv 10 ^ k, dexp = - 16\<rparr>,
                \<lparr>dvalue = dvalue d smod 10 ^ k, dexp = dexp d\<rparr>)"
    using assms by (simp add: QuoRem_def NewFromFloat_100_def Let_def k add.commute)
  have c: "Cmp \<lparr>dvalue = \<bar>dvalue d smod 10 ^ k\<bar> * 2, dexp = dexp d + 16\<rparr> (Abs NewFromFloat_100) < 0
            \<longleftrightarrow> \<bar>dvalue d smod 10 ^ k\<bar> * 2 < 10 ^ k"
    using assms by (simp add: Cmp_def Abs_def NewFromFloat_100_def rescale_def Let_def k)
  have s: "sgn (dvalue d) * sgn (dvalue NewFromFloat_100) < 0 \<longleftrightarrow> dvalue d < 0"
    by (simp add: NewFromFloat_100_def sgn_if)
  show ?thesis
    unfolding k
    by (simp add: Div_def DivRound_def DivisionPrecision_def q c s Let_def Sub_def Add_def New_def
        rescale_def)
qed

lemma Div_hundred_error:
  "\<bar>dec_val (Div d NewFromFloat_100) - dec_val d / 100\<bar> \<le> 1 / (2 * 10 ^ 16)"
proof (cases "- 14 \<le> dexp d")
  case True
  then show ?thesis by (simp add: dec_val_Div_hundred)
next
  case False
  then have small: "dexp d < - 14" by simp
  define k where "k = nat (- dexp d - 14)"
  define bb :: int where "bb = 10 ^ k"
  define res where "res = (if \<bar>dvalue d smod bb\<bar> * 2 < bb then dvalue d sdiv bb
                   else if dvalue d < 0 then dvalue d sdiv bb - 1 else dvalue d sdiv bb + 1)"
  have bb: "0 < bb" by (simp add: bb_def)
  have D: "Div d NewFromFloat_100 = \<lparr>dvalue = res, dexp = - 16\<rparr>"
    by (simp add: Div_hundred_small [OF small] res_def bb_def k_def Let_def)
  have core: "\<bar>res * bb - dvalue d\<bar> * 2 \<le> bb"
    using round_half_core [OF bb, of "dvalue d"] by (simp add: res_def)
  define P :: rat where "P = 10 powi (- 16)"
  have P: "P = 1 / 10 ^ 16" by (simp add: P_def power_int_def inverse_eq_divide power_one_over)
  have e: "(10::rat) powi (- 14) = of_int (10 ^ nat (- 14 - dexp d)) * 10 powi (dexp d)"
    using small by (intro pow10_split) simp
  have b: "(10::rat) powi (- 14) = of_int (10 ^ nat (- 14 - (- 16))) * 10 powi (- 16)"
    by (intro pow10_split) simp
  have kk: "nat (- 14 - dexp d) = k" by (simp add: k_def algebra_simps)
  have "of_int bb * (10::rat) powi (dexp d) = 100 * P"
    using e b by (simp add: kk bb_def P_def)
  then have pw: "(10::rat) powi (dexp d) = 100 * P / of_int bb"
    using bb by (simp add: field_simps)
  have d1: "dec_val (Div d NewFromFloat_100) = of_int res * P"
    by (simp add: D dec_val_def P_def)
  have d2: "dec_val d / 100 = of_int (dvalue d) * P / of_int bb"
    by (simp add: dec_val_def pw)
  have "dec_val (Div d NewFromFloat_100) - dec_val d / 100
          = (of_int (res * bb - dvalue d) / of_int bb) * P"
    unfolding d1 d2 using bb by (simp add: field_simps)
  also have "\<bar>\<dots>\<bar> = (of_int \<bar>res * bb - dvalue d\<bar> / of_int bb) * P"
    using bb by (simp add: abs_mult P abs_divide del: of_int_diff of_int_mult)
  also have "\<dots> \<le> (1 / 2) * P"
  proof -
    have "(of_int (\<bar>res * bb - dvalue d\<bar> * 2) :: rat) \<le> of_int bb"
      using core by (simp only: of_int_le_iff)
    then have "(of_int \<bar>res * bb - dvalue d\<bar> :: rat) / of_int bb \<le> 1 / 2"
      using bb by (simp add: field_simps)
    moreover have "0 \<le> P" by (simp add: P)
    ultimately show ?thesis by (rule mult_right_mono)
  qed
  finally show ?thesis by (simp add: P)
qed

section \<open>The computation operations\<close>

lemma ignore_err_Inr: "NewFromString s = Inr d \<Longrightarrow> NewFromString_ignore_err s = d"
  by (simp add: NewFromString_ignore_err_def)

lemma ignore_err_Inl: "NewFromString s = Inl e \<Longrightarrow> NewFromString_ignore_err s = Decimal_zero"
  by (simp add: NewFromString_ignore_err_def)

lemma discounted_amount:
  assumes "Discount i = Some d" and "getDiscount d = (DiscountTypeAmount, m)"
  shows "TotalWithoutTaxAndWithDiscount i = Sub (TotalWithoutTaxAndWithoutDiscount i) m"
  using assms by (simp add: TotalWithoutTaxAndWithDiscount_def)

lemma discounted_percent:
  assumes "Discount i = Some d" and "getDiscount d = (DiscountTypePercent, p)"
  shows "TotalWithoutTaxAndWithDiscount i
           = Sub (TotalWithoutTaxAndWithoutDiscount i)
                 (Mul (TotalWithoutTaxAndWithoutDiscount i) (Div p NewFromFloat_100))"
  using assms by (simp add: TotalWithoutTaxAndWithDiscount_def Let_def)



text \<open>
  C5. For an item whose unit cost and quantity are valid decimal strings, the
  subtotal \<^verbatim>\<open>TotalWithoutTaxAndWithoutDiscount\<close> is the exact product of the two
  parsed decimals, whatever tax and discount the item carries.
\<close>

theorem subtotal_is_product:
  assumes "NewFromString (UnitCost i) = Inr u" and "NewFromString (Quantity i) = Inr q"
  shows "TotalWithoutTaxAndWithoutDiscount i = Mul u q
       \<and> dec_val (TotalWithoutTaxAndWithoutDiscount i) = dec_val u * dec_val q
       \<and> TotalWithoutTaxAndWithoutDiscount (i\<lparr>Tax := t, Discount := d\<rparr>)
           = TotalWithoutTaxAndWithoutDiscount i"
  using assms
  by (simp add: TotalWithoutTaxAndWithoutDiscount_def ignore_err_Inr dec_val_Mul)

text \<open>The first end-to-end scenario of the spec: 10.00 times 3 is 30.\<close>

theorem subtotal_is_product_witness:
  "NewFromString (UnitCost scenario1) = Inr (New 1000 (- 2))
   \<and> NewFromString (Quantity scenario1) = Inr (New 3 0)
   \<and> dec_val (TotalWithoutTaxAndWithoutDiscount scenario1) = 30"
proof -
  have u: "NewFromString (UnitCost scenario1) = Inr (New 1000 (- 2))"
    by code_simp
  have q: "NewFromString (Quantity scenario1) = Inr (New 3 0)"
    by code_simp
  have v: "dec_val (New 1000 (- 2)) * dec_val (New 3 0) = 30"
    by code_simp
  have "dec_val (TotalWithoutTaxAndWithoutDiscount scenario1) = 30"
    using subtotal_is_product [OF u q, THEN conjunct2, THEN conjunct1] v by simp
  with u q show ?thesis by simp
qed

text \<open>
  C6. The grand total \<^verbatim>\<open>TotalWithTaxAndDiscount\<close> is the discounted subtotal
  plus the tax amount, for every item.
\<close>

theorem grand_total_is_sum:
  "TotalWithTaxAndDiscount i = Add (TotalWithoutTaxAndWithDiscount i) (TaxWithTotalDiscounted i)
   \<and> dec_val (TotalWithTaxAndDiscount i)
       = dec_val (TotalWithoutTaxAndWithDiscount i) + dec_val (TaxWithTotalDiscounted i)"
  by (simp add: TotalWithTaxAndDiscount_def dec_val_Add)

text \<open>
  C7, as the source has it. An item with a Percent discount of \<open>0.000000000000001\<close>
  prepares without error; the division by 100 rounds the quotient \<open>10 ^ - 17\<close> to
  zero at the sixteenth digit, and the discounted subtotal of 1 is 1, not
  \<open>1 - 10 ^ - 17\<close>.
\<close>

theorem percent_discount_exact_counterexample:
  "fst (Prepare ex_tiny_percent) = None
   \<and> Tax (snd (Prepare ex_tiny_percent)) = None
   \<and> Discount (snd (Prepare ex_tiny_percent))
       = Some \<lparr>discount_kind = DiscountTypePercent, discount_source = ''0.000000000000001'',
               discount_magnitude = New 1 (- 15)\<rparr>
   \<and> dec_val (TotalWithoutTaxAndWithoutDiscount (snd (Prepare ex_tiny_percent))) = 1
   \<and> dec_val (TotalWithoutTaxAndWithDiscount (snd (Prepare ex_tiny_percent))) = 1
   \<and> dec_val (TotalWithoutTaxAndWithDiscount (snd (Prepare ex_tiny_percent)))
       \<noteq> dec_val (TotalWithoutTaxAndWithoutDiscount (snd (Prepare ex_tiny_percent)))
           * (1 - dec_val (New 1 (- 15)) / 100)"
  by code_simp

text \<open>
  C7, amended. For an item with a Percent discount of magnitude \<open>p\<close>, the discounted
  subtotal is the subtotal minus the subtotal times \<open>q\<close>, where \<open>q\<close> is the quotient
  the decimal division returns for \<open>p\<close> and the divisor 100: a decimal with 16 digits
  after the point, within half a unit of the sixteenth digit of \<open>p / 100\<close>. When
  \<open>p\<close> has at most 14 digits after the point, \<open>q\<close> is \<open>p / 100\<close> and the discounted
  subtotal is the subtotal times \<open>1 - p / 100\<close> exactly.
\<close>

theorem percent_discount_rounded_quotient:
  assumes "Discount i = Some d" and "getDiscount d = (DiscountTypePercent, p)"
  shows "dec_val (TotalWithoutTaxAndWithDiscount i)
           = dec_val (TotalWithoutTaxAndWithoutDiscount i)
             - dec_val (TotalWithoutTaxAndWithoutDiscount i) * dec_val (Div p NewFromFloat_100)
       \<and> dexp (Div p NewFromFloat_100) = - 16
       \<and> \<bar>dec_val (Div p NewFromFloat_100) - dec_val p / 100\<bar> \<le> 1 / (2 * 10 ^ 16)
       \<and> dec_val NewFromFloat_100 = 100
       \<and> (- 14 \<le> dexp p \<longrightarrow>
            dec_val (Div p NewFromFloat_100) = dec_val p / 100
            \<and> dec_val (TotalWithoutTaxAndWithDiscount i)
                = dec_val (TotalWithoutTaxAndWithoutDiscount i) * (1 - dec_val p / 100))"
proof -
  have "TotalWithoutTaxAndWithDiscount i
           = Sub (TotalWithoutTaxAndWithoutDiscount i)
                 (Mul (TotalWithoutTaxAndWithoutDiscount i) (Div p NewFromFloat_100))"
    using assms by (simp add: discounted_percent)
  then have e: "dec_val (TotalWithoutTaxAndWithDiscount i)
           = dec_val (TotalWithoutTaxAndWithoutDiscount i)
             - dec_val (TotalWithoutTaxAndWithoutDiscount i) * dec_val (Div p NewFromFloat_100)"
    by (simp add: dec_val_Sub dec_val_Mul)
  have "dec_val (TotalWithoutTaxAndWithDiscount i)
          = dec_val (TotalWithoutTaxAndWithoutDiscount i) * (1 - dec_val p / 100)"
    if "- 14 \<le> dexp p"
    using that e by (simp add: dec_val_Div_hundred algebra_simps)
  with e show ?thesis
    using Div_hundred_error [of p]
    by (simp add: dexp_Div dec_val_hundred dec_val_Div_hundred)
qed

theorem percent_discount_rounded_quotient_witness:
  "Discount (snd (Prepare scenario2))
     = Some \<lparr>discount_kind = DiscountTypePercent, discount_source = ''10'',
             discount_magnitude = New 10 0\<rparr>
   \<and> dec_val (TotalWithoutTaxAndWithoutDiscount (snd (Prepare scenario2))) = 100
   \<and> dec_val (TotalWithoutTaxAndWithDiscount (snd (Prepare scenario2))) = 90"
proof -
  let ?i = "snd (Prepare scenario2)"
  let ?d = "\<lparr>discount_kind = DiscountTypePercent, discount_source = ''10'',
             discount_magnitude = New 10 0\<rparr>"
  have a: "Discount ?i = Some ?d" by code_simp
  have b: "getDiscount ?d = (DiscountTypePercent, New 10 0)" by code_simp
  have s: "dec_val (TotalWithoutTaxAndWithoutDiscount ?i) = 100" by code_simp
  have p: "dec_val (New 10 0) = 10" "- 14 \<le> dexp (New 10 0)" by code_simp+
  have "- 14 \<le> dexp (New 10 0) \<longrightarrow>
          dec_val (TotalWithoutTaxAndWithDiscount ?i)
            = dec_val (TotalWithoutTaxAndWithoutDiscount ?i) * (1 - dec_val (New 10 0) / 100)"
    using percent_discount_rounded_quotient [OF a b] by blast
  then have "dec_val (TotalWithoutTaxAndWithDiscount ?i) = 90"
    using s p by simp
  with a s show ?thesis by simp
qed

text \<open>
  C8. With no discount attached the discounted subtotal is the subtotal unchanged;
  with no tax attached the tax amount is zero.
\<close>

theorem absent_discount_absent_tax:
  "(Discount i = None \<longrightarrow>
      TotalWithoutTaxAndWithDiscount i = TotalWithoutTaxAndWithoutDiscount i)
   \<and> (Tax i = None \<longrightarrow>
      TaxWithTotalDiscounted i = NewFromFloat_0 \<and> dec_val (TaxWithTotalDiscounted i) = 0)"
  by (simp add: TotalWithoutTaxAndWithDiscount_def TaxWithTotalDiscounted_def dec_val_zero)

theorem absent_discount_absent_tax_witness:
  "Discount scenario1 = None \<and> Tax scenario1 = None
   \<and> dec_val (TotalWithoutTaxAndWithDiscount scenario1) = 30
   \<and> dec_val (TaxWithTotalDiscounted scenario1) = 0"
proof -
  have a: "Discount scenario1 = None" "Tax scenario1 = None" by code_simp+
  have s: "dec_val (TotalWithoutTaxAndWithoutDiscount scenario1) = 30" by code_simp
  have "TotalWithoutTaxAndWithDiscount scenario1 = TotalWithoutTaxAndWithoutDiscount scenario1"
    using absent_discount_absent_tax [of scenario1] a by blast
  moreover have "dec_val (TaxWithTotalDiscounted scenario1) = 0"
    using absent_discount_absent_tax [of scenario1] a by blast
  ultimately show ?thesis using a s by simp
qed

text \<open>
  C10. No operation clamps its result. A flat discount larger than the subtotal
  gives the negative discounted subtotal, subtotal minus magnitude; a Percent
  discount or tax is applied with whatever magnitude it has, also outside 0 to 100;
  and a prepared item whose discounted subtotal and grand total are below zero
  exists.
\<close>

theorem no_clamping:
  "(Discount i = Some d \<and> getDiscount d = (DiscountTypeAmount, m)
      \<and> dec_val (TotalWithoutTaxAndWithoutDiscount i) < dec_val m \<longrightarrow>
        dec_val (TotalWithoutTaxAndWithDiscount i)
          = dec_val (TotalWithoutTaxAndWithoutDiscount i) - dec_val m
        \<and> dec_val (TotalWithoutTaxAndWithDiscount i) < 0)
   \<and> (Discount i = Some d \<and> getDiscount d = (DiscountTypePercent, p) \<longrightarrow>
        dec_val (TotalWithoutTaxAndWithDiscount i)
          = dec_val (TotalWithoutTaxAndWithoutDiscount i)
            - dec_val (TotalWithoutTaxAndWithoutDiscount i) * dec_val (Div p NewFromFloat_100))
   \<and> (Discount i = Some d \<and> getDiscount d = (DiscountTypePercent, p) \<and> - 14 \<le> dexp p \<longrightarrow>
        dec_val (TotalWithoutTaxAndWithDiscount i)
          = dec_val (TotalWithoutTaxAndWithoutDiscount i) * (1 - dec_val p / 100))
   \<and> (Tax i = Some tx \<and> getTax tx = (TaxTypePercent, t) \<longrightarrow>
        dec_val (TaxWithTotalDiscounted i)
          = dec_val (TotalWithoutTaxAndWithDiscount i) * dec_val (Div t NewFromFloat_100))
   \<and> (Tax i = Some tx \<and> getTax tx = (TaxTypePercent, t) \<and> - 14 \<le> dexp t \<longrightarrow>
        dec_val (TaxWithTotalDiscounted i)
          = dec_val (TotalWithoutTaxAndWithDiscount i) * (dec_val t / 100))
   \<and> (\<exists>j. fst (Prepare j) = None
          \<and> dec_val (TotalWithoutTaxAndWithDiscount (snd (Prepare j))) < 0
          \<and> dec_val (TotalWithTaxAndDiscount (snd (Prepare j))) < 0)"
proof (intro conjI impI)
  assume h: "Discount i = Some d \<and> getDiscount d = (DiscountTypeAmount, m)
      \<and> dec_val (TotalWithoutTaxAndWithoutDiscount i) < dec_val m"
  then have "TotalWithoutTaxAndWithDiscount i = Sub (TotalWithoutTaxAndWithoutDiscount i) m"
    by (simp add: discounted_amount)
  then show e: "dec_val (TotalWithoutTaxAndWithDiscount i)
          = dec_val (TotalWithoutTaxAndWithoutDiscount i) - dec_val m"
    by (simp add: dec_val_Sub)
  show "dec_val (TotalWithoutTaxAndWithDiscount i) < 0"
    using h e by simp
next
  assume h: "Discount i = Some d \<and> getDiscount d = (DiscountTypePercent, p)"
  then have "TotalWithoutTaxAndWithDiscount i
           = Sub (TotalWithoutTaxAndWithoutDiscount i)
                 (Mul (TotalWithoutTaxAndWithoutDiscount i) (Div p NewFromFloat_100))"
    by (simp add: discounted_percent)
  then show "dec_val (TotalWithoutTaxAndWithDiscount i)
          = dec_val (TotalWithoutTaxAndWithoutDiscount i)
            - dec_val (TotalWithoutTaxAndWithoutDiscount i) * dec_val (Div p NewFromFloat_100)"
    by (simp add: dec_val_Sub dec_val_Mul)
next
  assume h: "Discount i = Some d \<and> getDiscount d = (DiscountTypePercent, p) \<and> - 14 \<le> dexp p"
  then have "TotalWithoutTaxAndWithDiscount i
           = Sub (TotalWithoutTaxAndWithoutDiscount i)
                 (Mul (TotalWithoutTaxAndWithoutDiscount i) (Div p NewFromFloat_100))"
    by (simp add: discounted_percent)
  then show "dec_val (TotalWithoutTaxAndWithDiscount i)
          = dec_val (TotalWithoutTaxAndWithoutDiscount i) * (1 - dec_val p / 100)"
    using h by (simp add: dec_val_Sub dec_val_Mul dec_val_Div_hundred algebra_simps)
next
  assume h: "Tax i = Some tx \<and> getTax tx = (TaxTypePercent, t)"
  then show "dec_val (TaxWithTotalDiscounted i)
          = dec_val (TotalWithoutTaxAndWithDiscount i) * dec_val (Div t NewFromFloat_100)"
    by (simp add: TaxWithTotalDiscounted_def dec_val_Mul)
next
  assume h: "Tax i = Some tx \<and> getTax tx = (TaxTypePercent, t) \<and> - 14 \<le> dexp t"
  then show "dec_val (TaxWithTotalDiscounted i)
          = dec_val (TotalWithoutTaxAndWithDiscount i) * (dec_val t / 100)"
    by (simp add: TaxWithTotalDiscounted_def dec_val_Mul dec_val_Div_hundred)
next
  have "fst (Prepare ex_flat_over) = None" by code_simp
  moreover have "dec_val (TotalWithoutTaxAndWithDiscount (snd (Prepare ex_flat_over))) < 0"
    by code_simp
  moreover have "dec_val (TotalWithTaxAndDiscount (snd (Prepare ex_flat_over))) < 0"
    by code_simp
  ultimately show "\<exists>j. fst (Prepare j) = None
          \<and> dec_val (TotalWithoutTaxAndWithDiscount (snd (Prepare j))) < 0
          \<and> dec_val (TotalWithTaxAndDiscount (snd (Prepare j))) < 0"
    by blast
qed

text \<open>
  A flat discount of 15 on a subtotal of 10 gives -5; a discount of 150 percent on
  10 gives -5, and a tax of 250 percent on that gives -12.5.
\<close>

theorem no_clamping_witness:
  "dec_val (TotalWithoutTaxAndWithoutDiscount (snd (Prepare ex_flat_over))) = 10
   \<and> dec_val (TotalWithoutTaxAndWithDiscount (snd (Prepare ex_flat_over))) = - 5
   \<and> dec_val (TotalWithoutTaxAndWithoutDiscount (snd (Prepare ex_percent_over))) = 10
   \<and> dec_val (TotalWithoutTaxAndWithDiscount (snd (Prepare ex_percent_over))) = - 5
   \<and> dec_val (TaxWithTotalDiscounted (snd (Prepare ex_percent_over))) = - 25 / 2"
proof -
  let ?i = "snd (Prepare ex_flat_over)"
  let ?d = "\<lparr>discount_kind = DiscountTypeAmount, discount_source = ''15'',
             discount_magnitude = New 15 0\<rparr>"
  have a: "Discount ?i = Some ?d" by code_simp
  have b: "getDiscount ?d = (DiscountTypeAmount, New 15 0)" by code_simp
  have s: "dec_val (TotalWithoutTaxAndWithoutDiscount ?i) = 10" by code_simp
  have m: "dec_val (New 15 0) = 15" by code_simp
  have c: "dec_val (TotalWithoutTaxAndWithoutDiscount ?i) < dec_val (New 15 0)"
    using s m by simp
  have "dec_val (TotalWithoutTaxAndWithDiscount ?i)
          = dec_val (TotalWithoutTaxAndWithoutDiscount ?i) - dec_val (New 15 0)"
    using no_clamping [of ?i ?d "New 15 0"] a b c by blast
  then have 1: "dec_val (TotalWithoutTaxAndWithDiscount ?i) = - 5"
    using s m by simp
  let ?j = "snd (Prepare ex_percent_over)"
  let ?e = "\<lparr>discount_kind = DiscountTypePercent, discount_source = ''150'',
             discount_magnitude = New 150 0\<rparr>"
  let ?tx = "\<lparr>tax_kind = TaxTypePercent, tax_source = ''250'', tax_magnitude = New 250 0\<rparr>"
  have a': "Discount ?j = Some ?e" by code_simp
  have b': "getDiscount ?e = (DiscountTypePercent, New 150 0)" by code_simp
  have s': "dec_val (TotalWithoutTaxAndWithoutDiscount ?j) = 10" by code_simp
  have p: "dec_val (New 150 0) = 150" by code_simp
  have p': "- 14 \<le> dexp (New 150 0)" by code_simp
  have "dec_val (TotalWithoutTaxAndWithDiscount ?j)
          = dec_val (TotalWithoutTaxAndWithoutDiscount ?j) * (1 - dec_val (New 150 0) / 100)"
    using no_clamping [of ?j ?e _ "New 150 0"] a' b' p' by blast
  then have 2: "dec_val (TotalWithoutTaxAndWithDiscount ?j) = - 5"
    using s' p by simp
  have a'': "Tax ?j = Some ?tx" by code_simp
  have b'': "getTax ?tx = (TaxTypePercent, New 250 0)" by code_simp
  have t: "dec_val (New 250 0) = 250" by code_simp
  have t': "- 14 \<le> dexp (New 250 0)" by code_simp
  have "dec_val (TaxWithTotalDiscounted ?j)
          = dec_val (TotalWithoutTaxAndWithDiscount ?j) * (dec_val (New 250 0) / 100)"
    using no_clamping [of ?j _ _ _ ?tx "New 250 0"] a'' b'' t' by blast
  then have 3: "dec_val (TaxWithTotalDiscounted ?j) = - 25 / 2"
    using 2 t by simp
  from s 1 s' 2 3 show ?thesis by simp
qed

section \<open>Preparation\<close>

lemma Prepare_unitCost_error:
  "NewFromString (UnitCost i) = Inl e \<Longrightarrow> Prepare i = (Some e, i)"
  by (simp add: Prepare_def)

lemma Prepare_quantity_error:
  "NewFromString (UnitCost i) = Inr u \<Longrightarrow> NewFromString (Quantity i) = Inl e \<Longrightarrow>
   Prepare i = (Some e, i\<lparr>priv_unitCost := u\<rparr>)"
  by (simp add: Prepare_def)

lemma Prepare_Discount_error:
  "Discount i = Some d \<Longrightarrow> NewFromString (discount_source d) = Inl e \<Longrightarrow>
   Prepare_Discount i = (Some e, i)"
  by (simp add: Prepare_Discount_def Discount_Prepare_def)

lemma Prepare_Tax_error:
  "Tax i = Some t \<Longrightarrow> NewFromString (tax_source t) = Inl e \<Longrightarrow> Prepare_Tax i = (Some e, i)"
  by (simp add: Prepare_Tax_def Tax_Prepare_def)

lemma Prepare_Tax_ok:
  "Tax i = Some t \<Longrightarrow> NewFromString (tax_source t) = Inr m \<Longrightarrow>
   Prepare_Tax i = Prepare_Discount (i\<lparr>Tax := Some (t\<lparr>tax_magnitude := m\<rparr>)\<rparr>)"
  by (simp add: Prepare_Tax_def Tax_Prepare_def)

lemma Prepare_Tax_none: "Tax i = None \<Longrightarrow> Prepare_Tax i = Prepare_Discount i"
  by (simp add: Prepare_Tax_def)

lemma Prepare_parsed:
  "NewFromString (UnitCost i) = Inr u \<Longrightarrow> NewFromString (Quantity i) = Inr q \<Longrightarrow>
   Prepare i = Prepare_Tax (i\<lparr>priv_unitCost := u, priv_quantity := q\<rparr>)"
  by (simp add: Prepare_def)

lemma Prepare_Discount_fields:
  "Prepare_Discount i = (r, j) \<Longrightarrow>
   UnitCost j = UnitCost i \<and> Quantity j = Quantity i \<and> Total j = Total i
   \<and> priv_unitCost j = priv_unitCost i \<and> priv_quantity j = priv_quantity i"
  by (auto simp: Prepare_Discount_def split: option.splits prod.splits)

lemma Prepare_Tax_fields:
  "Prepare_Tax i = (r, j) \<Longrightarrow>
   UnitCost j = UnitCost i \<and> Quantity j = Quantity i \<and> Total j = Total i
   \<and> priv_unitCost j = priv_unitCost i \<and> priv_quantity j = priv_quantity i"
  by (auto simp: Prepare_Tax_def split: option.splits prod.splits dest: Prepare_Discount_fields)

lemma Prepare_success:
  assumes "Prepare i0 = (None, i)"
  shows "NewFromString (UnitCost i0) = Inr (priv_unitCost i)
       \<and> NewFromString (Quantity i0) = Inr (priv_quantity i)
       \<and> UnitCost i = UnitCost i0 \<and> Quantity i = Quantity i0 \<and> Total i = Total i0"
proof (cases "NewFromString (UnitCost i0)")
  case (Inl e)
  with assms show ?thesis by (simp add: Prepare_def)
next
  case u: (Inr u)
  show ?thesis
  proof (cases "NewFromString (Quantity i0)")
    case (Inl e)
    with assms u show ?thesis by (simp add: Prepare_def)
  next
    case q: (Inr q)
    from assms u q have "Prepare_Tax (i0\<lparr>priv_unitCost := u, priv_quantity := q\<rparr>) = (None, i)"
      by (simp add: Prepare_parsed)
    from Prepare_Tax_fields [OF this] u q show ?thesis by simp
  qed
qed

text \<open>
  C2, as the source has it. The item with quantity \<^verbatim>\<open>abc\<close> fails preparation,
  and each of the four operations returns the decimal zero on it, before and after
  the failed \<^verbatim>\<open>Prepare\<close>.
\<close>

theorem unprepared_operations_counterexample:
  "fst (Prepare ex_bad_quantity) = Some (ParseError ''abc'')
   \<and> TotalWithoutTaxAndWithoutDiscount ex_bad_quantity = New 0 0
   \<and> TotalWithoutTaxAndWithDiscount ex_bad_quantity = New 0 0
   \<and> TaxWithTotalDiscounted ex_bad_quantity = New 0 0
   \<and> TotalWithTaxAndDiscount ex_bad_quantity = New 0 0
   \<and> TotalWithoutTaxAndWithoutDiscount (snd (Prepare ex_bad_quantity)) = New 0 0
   \<and> TotalWithTaxAndDiscount (snd (Prepare ex_bad_quantity)) = New 0 0"
  by code_simp

text \<open>
  C2, amended. The four operations return a decimal and have no error result. The
  subtotal parses the unit cost and the quantity afresh and drops the parse errors:
  for an item whose unit cost or quantity is not a valid decimal string, which
  \<^verbatim>\<open>Prepare\<close> rejects, the subtotal is zero, and with no discount and no tax
  attached so are the discounted subtotal, the tax amount and the grand total.
\<close>

theorem unprepared_subtotal_zero:
  assumes "(\<exists>e. NewFromString (UnitCost i) = Inl e) \<or> (\<exists>e. NewFromString (Quantity i) = Inl e)"
  shows "fst (Prepare i) \<noteq> None
       \<and> dec_val (TotalWithoutTaxAndWithoutDiscount i) = 0
       \<and> (Discount i = None \<longrightarrow> dec_val (TotalWithoutTaxAndWithDiscount i) = 0)
       \<and> (Discount i = None \<and> Tax i = None \<longrightarrow>
            dec_val (TaxWithTotalDiscounted i) = 0 \<and> dec_val (TotalWithTaxAndDiscount i) = 0)"
proof -
  have p: "fst (Prepare i) \<noteq> None"
  proof (cases "NewFromString (UnitCost i)")
    case (Inl e)
    then show ?thesis by (simp add: Prepare_unitCost_error)
  next
    case (Inr u)
    with assms obtain e where "NewFromString (Quantity i) = Inl e" by auto
    with Inr show ?thesis by (simp add: Prepare_quantity_error)
  qed
  have "NewFromString_ignore_err (UnitCost i) = Decimal_zero
        \<or> NewFromString_ignore_err (Quantity i) = Decimal_zero"
    using assms by (auto simp: ignore_err_Inl)
  then have z: "dec_val (TotalWithoutTaxAndWithoutDiscount i) = 0"
    by (auto simp: TotalWithoutTaxAndWithoutDiscount_def dec_val_Mul dec_val_zero)
  have d: "dec_val (TotalWithoutTaxAndWithDiscount i) = 0" if "Discount i = None"
    using that z by (simp add: TotalWithoutTaxAndWithDiscount_def)
  have t: "dec_val (TaxWithTotalDiscounted i) = 0" if "Tax i = None"
    using that by (simp add: TaxWithTotalDiscounted_def dec_val_zero)
  have g: "dec_val (TotalWithTaxAndDiscount i) = 0" if "Discount i = None" "Tax i = None"
    using that d t by (simp add: TotalWithTaxAndDiscount_def dec_val_Add)
  from p z d t g show ?thesis by simp
qed

theorem unprepared_subtotal_zero_witness:
  "NewFromString (Quantity ex_bad_quantity) = Inl (ParseError ''abc'')
   \<and> fst (Prepare ex_bad_quantity) \<noteq> None
   \<and> dec_val (TotalWithoutTaxAndWithoutDiscount ex_bad_quantity) = 0
   \<and> dec_val (TotalWithTaxAndDiscount ex_bad_quantity) = 0"
proof -
  have q: "NewFromString (Quantity ex_bad_quantity) = Inl (ParseError ''abc'')" by code_simp
  have n: "Discount ex_bad_quantity = None" "Tax ex_bad_quantity = None" by code_simp+
  have h: "(\<exists>e. NewFromString (UnitCost ex_bad_quantity) = Inl e)
           \<or> (\<exists>e. NewFromString (Quantity ex_bad_quantity) = Inl e)"
    using q by blast
  from unprepared_subtotal_zero [OF h] q n show ?thesis by blast
qed

text \<open>
  C3, as the source has it. With unit cost 10 and quantity \<^verbatim>\<open>abc\<close>,
  \<^verbatim>\<open>Prepare\<close> returns the error of the quantity and leaves the cached unit cost,
  zero before the call, at 10.
\<close>

theorem Prepare_partial_state_counterexample:
  "NewFromString (Quantity ex_bad_quantity) = Inl (ParseError ''abc'')
   \<and> fst (Prepare ex_bad_quantity) = Some (ParseError ''abc'')
   \<and> priv_unitCost ex_bad_quantity = New 0 0
   \<and> priv_unitCost (snd (Prepare ex_bad_quantity)) = New 10 0"
  by code_simp

text \<open>
  C3, amended. \<^verbatim>\<open>Prepare\<close> parses the unit cost, the quantity, the tax magnitude
  and the discount magnitude in that order, returns the first error it meets and
  stops there. What it cached before the failing field stays in the item: the unit
  cost when the quantity fails, the unit cost and the quantity when the tax fails,
  and these and the tax magnitude when the discount fails; nothing after the failing
  field is touched.
\<close>

theorem Prepare_first_error:
  "(NewFromString (UnitCost i) = Inl e \<longrightarrow> Prepare i = (Some e, i))
   \<and> (NewFromString (UnitCost i) = Inr u \<and> NewFromString (Quantity i) = Inl e \<longrightarrow>
        Prepare i = (Some e, i\<lparr>priv_unitCost := u\<rparr>))
   \<and> (NewFromString (UnitCost i) = Inr u \<and> NewFromString (Quantity i) = Inr q
        \<and> Tax i = Some t \<and> NewFromString (tax_source t) = Inl e \<longrightarrow>
        Prepare i = (Some e, i\<lparr>priv_unitCost := u, priv_quantity := q\<rparr>))
   \<and> (NewFromString (UnitCost i) = Inr u \<and> NewFromString (Quantity i) = Inr q
        \<and> Tax i = None
        \<and> Discount i = Some d \<and> NewFromString (discount_source d) = Inl e \<longrightarrow>
        Prepare i = (Some e, i\<lparr>priv_unitCost := u, priv_quantity := q\<rparr>))
   \<and> (NewFromString (UnitCost i) = Inr u \<and> NewFromString (Quantity i) = Inr q
        \<and> Tax i = Some t \<and> NewFromString (tax_source t) = Inr m
        \<and> Discount i = Some d \<and> NewFromString (discount_source d) = Inl e \<longrightarrow>
        Prepare i = (Some e, i\<lparr>priv_unitCost := u, priv_quantity := q,
                                Tax := Some (t\<lparr>tax_magnitude := m\<rparr>)\<rparr>))"
  by (simp add: Prepare_unitCost_error Prepare_quantity_error Prepare_parsed Prepare_Tax_error
      Prepare_Tax_ok Prepare_Tax_none Prepare_Discount_error)

theorem Prepare_first_error_witness:
  "Prepare ex_bad_unitCost = (Some (ParseError ''x''), ex_bad_unitCost)
   \<and> Prepare ex_bad_quantity
       = (Some (ParseError ''abc''), ex_bad_quantity\<lparr>priv_unitCost := New 10 0\<rparr>)
   \<and> Prepare ex_bad_tax
       = (Some (ParseError ''20%''),
          ex_bad_tax\<lparr>priv_unitCost := New 10 0, priv_quantity := New 3 0\<rparr>)
   \<and> Prepare ex_bad_discount_no_tax
       = (Some (ParseError ''1.2.3''),
          ex_bad_discount_no_tax\<lparr>priv_unitCost := New 10 0, priv_quantity := New 3 0\<rparr>)
   \<and> Prepare ex_bad_discount
       = (Some (ParseError ''1.2.3''),
          ex_bad_discount\<lparr>priv_unitCost := New 10 0, priv_quantity := New 3 0,
            Tax := Some ((mk_tax TaxTypePercent ''20'')\<lparr>tax_magnitude := New 20 0\<rparr>)\<rparr>)"
proof -
  have 1: "NewFromString (UnitCost ex_bad_unitCost) = Inl (ParseError ''x'')" by code_simp
  have 2: "NewFromString (UnitCost ex_bad_quantity) = Inr (New 10 0)"
          "NewFromString (Quantity ex_bad_quantity) = Inl (ParseError ''abc'')" by code_simp+
  have 3: "NewFromString (UnitCost ex_bad_tax) = Inr (New 10 0)"
          "NewFromString (Quantity ex_bad_tax) = Inr (New 3 0)"
          "Tax ex_bad_tax = Some (mk_tax TaxTypePercent ''20%'')"
          "NewFromString (tax_source (mk_tax TaxTypePercent ''20%'')) = Inl (ParseError ''20%'')"
    by code_simp+
  have 4: "NewFromString (UnitCost ex_bad_discount_no_tax) = Inr (New 10 0)"
          "NewFromString (Quantity ex_bad_discount_no_tax) = Inr (New 3 0)"
          "Tax ex_bad_discount_no_tax = None"
          "Discount ex_bad_discount_no_tax = Some (mk_discount DiscountTypeAmount ''1.2.3'')"
          "NewFromString (discount_source (mk_discount DiscountTypeAmount ''1.2.3''))
             = Inl (ParseError ''1.2.3'')"
    by code_simp+
  have 5: "NewFromString (UnitCost ex_bad_discount) = Inr (New 10 0)"
          "NewFromString (Quantity ex_bad_discount) = Inr (New 3 0)"
          "Tax ex_bad_discount = Some (mk_tax TaxTypePercent ''20'')"
          "NewFromString (tax_source (mk_tax TaxTypePercent ''20'')) = Inr (New 20 0)"
          "Discount ex_bad_discount = Some (mk_discount DiscountTypeAmount ''1.2.3'')"
          "NewFromString (discount_source (mk_discount DiscountTypeAmount ''1.2.3''))
             = Inl (ParseError ''1.2.3'')"
    by code_simp+
  have a: "Prepare ex_bad_unitCost = (Some (ParseError ''x''), ex_bad_unitCost)"
    using Prepare_first_error [of ex_bad_unitCost "ParseError ''x''"] 1 by blast
  have b: "Prepare ex_bad_quantity
       = (Some (ParseError ''abc''), ex_bad_quantity\<lparr>priv_unitCost := New 10 0\<rparr>)"
    using Prepare_first_error [of ex_bad_quantity "ParseError ''abc''" "New 10 0"] 2 by blast
  have c: "Prepare ex_bad_tax
       = (Some (ParseError ''20%''),
          ex_bad_tax\<lparr>priv_unitCost := New 10 0, priv_quantity := New 3 0\<rparr>)"
    using Prepare_first_error [of ex_bad_tax "ParseError ''20%''" "New 10 0" "New 3 0"
        "mk_tax TaxTypePercent ''20%''"] 3 by blast
  have d: "Prepare ex_bad_discount_no_tax
       = (Some (ParseError ''1.2.3''),
          ex_bad_discount_no_tax\<lparr>priv_unitCost := New 10 0, priv_quantity := New 3 0\<rparr>)"
    using Prepare_first_error [of ex_bad_discount_no_tax "ParseError ''1.2.3''" "New 10 0" "New 3 0"
        _ "mk_discount DiscountTypeAmount ''1.2.3''"] 4 by blast
  have e: "Prepare ex_bad_discount
       = (Some (ParseError ''1.2.3''),
          ex_bad_discount\<lparr>priv_unitCost := New 10 0, priv_quantity := New 3 0,
            Tax := Some ((mk_tax TaxTypePercent ''20'')\<lparr>tax_magnitude := New 20 0\<rparr>)\<rparr>)"
    using Prepare_first_error [of ex_bad_discount "ParseError ''1.2.3''" "New 10 0" "New 3 0"
        "mk_tax TaxTypePercent ''20''" "mk_discount DiscountTypeAmount ''1.2.3''" "New 20 0"] 5
    by blast
  from a b c d e show ?thesis by blast
qed

text \<open>
  In \<^verbatim>\<open>src/item.go\<close> the quantity is not parsed: an item whose quantity is not a
  decimal prepares without error there.
\<close>

lemma Prepare_item_go_ignores_quantity:
  "Prepare_item_go ex_bad_quantity
     = (None, ex_bad_quantity\<lparr>priv_unitCost := New 10 0\<rparr>)"
  by code_simp

section \<open>The rendered row\<close>

lemma boxed_cells_append: "boxed_cells (ps @ qs) = boxed_cells ps @ boxed_cells qs"
  by (induction ps rule: boxed_cells.induct) simp_all

lemma appendColTo_pdf:
  "pdf_out (pdf (appendColTo env i options doc))
     = pdf_out (pdf doc)
       @ [Wrapped (ItemColNameOffset env) (pdf_y (pdf doc))
            (ItemColUnitPriceOffset env - ItemColNameOffset env) 3 (encodeString doc (Name i))]
       @ (if Description i = [] then []
          else [Wrapped (pdf_lMargin (pdf doc))
                  (pdf_y (pdf doc) + 3 * of_nat (pdf_wrap (pdf doc) (pdf_fontSize (pdf doc))
                      (ItemColUnitPriceOffset env - ItemColNameOffset env)
                      (encodeString doc (Name i))) + 1)
                  (ItemColUnitPriceOffset env - ItemColNameOffset env) 3
                  (encodeString doc (Description i))])
       @ [Boxed (ItemColUnitPriceOffset env) (pdf_y (pdf doc))
            (ItemColQuantityOffset env - ItemColUnitPriceOffset env) (block_height env i doc)
            (encodeString doc (ac_FormatMoneyDecimal doc (priv_unitCost i))),
          Boxed (ItemColQuantityOffset env) (pdf_y (pdf doc))
            (ItemColTaxOffset env - ItemColQuantityOffset env) (block_height env i doc)
            (encodeString doc (Decimal_String env (priv_quantity i))),
          Boxed (ItemColTotalHTOffset env) (pdf_y (pdf doc))
            (ItemColTaxOffset env - ItemColTotalHTOffset env) (block_height env i doc)
            (encodeString doc (Total i))]"
  and appendColTo_cursor:
  "pdf_y (pdf (appendColTo env i options doc)) = pdf_y (pdf doc) + block_height env i doc"
  by (simp_all add: appendColTo_def appendDescription_def block_height_def Let_def GetY_def SetX_def
      SetY_def SetFont_def SetTextColor_def MultiCell_def CellFormat_def split: prod.splits)

text \<open>
  C4, as the source has it. Two prepared items that differ in the field
  \<^verbatim>\<open>Total\<close> only have the same computed grand total, 30, and different texts
  in the total column: each shows its own \<^verbatim>\<open>Total\<close> string.
\<close>

theorem total_column_counterexample:
  "fst (Prepare ex_total_999) = None \<and> fst (Prepare ex_total_1) = None
   \<and> dec_val (TotalWithTaxAndDiscount (snd (Prepare ex_total_999))) = 30
   \<and> dec_val (TotalWithTaxAndDiscount (snd (Prepare ex_total_1))) = 30
   \<and> map cell_text
        (row_cells ex_doc (appendColTo ex_env (snd (Prepare ex_total_999)) ex_options ex_doc))
       = [''u'', ''q'', ''999'']
   \<and> map cell_text
        (row_cells ex_doc (appendColTo ex_env (snd (Prepare ex_total_1)) ex_options ex_doc))
       = [''u'', ''q'', ''1'']"
  by code_simp

text \<open>
  C4, amended. For a prepared item, the unit-price cell shows the formatted unit
  cost and the quantity cell the quantity, both as preparation parsed them; the
  total cell shows the encoded field \<^verbatim>\<open>Total\<close> of the item, a string that the
  caller supplies, whatever the computed grand total is.
\<close>

theorem total_column_is_Total_field:
  assumes "Prepare i0 = (None, i)"
  shows "map cell_text (row_cells doc (appendColTo env i options doc))
           = [encodeString doc (ac_FormatMoneyDecimal doc (priv_unitCost i)),
              encodeString doc (Decimal_String env (priv_quantity i)),
              encodeString doc (Total i0)]
       \<and> NewFromString (UnitCost i0) = Inr (priv_unitCost i)
       \<and> NewFromString (Quantity i0) = Inr (priv_quantity i)"
  using Prepare_success [OF assms]
  by (simp add: row_cells_def appendColTo_pdf boxed_cells_append)

theorem total_column_is_Total_field_witness:
  "Prepare ex_total_999
     = (None, ex_total_999\<lparr>priv_unitCost := New 10 0, priv_quantity := New 3 0\<rparr>)
   \<and> map cell_text
        (row_cells ex_doc
           (appendColTo ex_env (ex_total_999\<lparr>priv_unitCost := New 10 0, priv_quantity := New 3 0\<rparr>)
              ex_options ex_doc))
       = [''u'', ''q'', ''999'']"
proof -
  let ?i = "ex_total_999\<lparr>priv_unitCost := New 10 0, priv_quantity := New 3 0\<rparr>"
  have p: "Prepare ex_total_999 = (None, ?i)" by code_simp
  have e: "encodeString ex_doc (ac_FormatMoneyDecimal ex_doc (priv_unitCost ?i)) = ''u''"
          "encodeString ex_doc (Decimal_String ex_env (priv_quantity ?i)) = ''q''"
          "encodeString ex_doc (Total ex_total_999) = ''999''"
    by code_simp+
  have "map cell_text (row_cells ex_doc (appendColTo ex_env ?i ex_options ex_doc))
           = [encodeString ex_doc (ac_FormatMoneyDecimal ex_doc (priv_unitCost ?i)),
              encodeString ex_doc (Decimal_String ex_env (priv_quantity ?i)),
              encodeString ex_doc (Total ex_total_999)]"
    using total_column_is_Total_field [OF p, of ex_doc ex_env ex_options] by blast
  with p e show ?thesis by simp
qed

text \<open>
  C9. The unit-price, quantity and total cells of a row are drawn at the row's
  starting cursor position with one height, the vertical extent of the
  name-plus-description block, and after the row the cursor is the starting
  position plus that height.
\<close>

theorem row_cells_share_height:
  "boxed_cells (pdf_out (pdf (appendColTo env i options doc)))
     = boxed_cells (pdf_out (pdf doc))
       @ [(ItemColUnitPriceOffset env, pdf_y (pdf doc),
           ItemColQuantityOffset env - ItemColUnitPriceOffset env, block_height env i doc,
           encodeString doc (ac_FormatMoneyDecimal doc (priv_unitCost i))),
          (ItemColQuantityOffset env, pdf_y (pdf doc),
           ItemColTaxOffset env - ItemColQuantityOffset env, block_height env i doc,
           encodeString doc (Decimal_String env (priv_quantity i))),
          (ItemColTotalHTOffset env, pdf_y (pdf doc),
           ItemColTaxOffset env - ItemColTotalHTOffset env, block_height env i doc,
           encodeString doc (Total i))]
   \<and> pdf_y (pdf (appendColTo env i options doc)) = pdf_y (pdf doc) + block_height env i doc"
  by (simp add: appendColTo_pdf appendColTo_cursor boxed_cells_append)

text \<open>
  A row whose name takes three lines and whose description takes two: the block is
  \<open>3 * 3 + 1 + 3 * 2 = 16\<close> high, the three cells are drawn at the starting
  position 20 with that height, and the cursor ends at 36.
\<close>

lemma row_example:
  "boxed_cells (pdf_out (pdf
      (appendColTo ex_env (snd (Prepare ex_described)) ex_options ex_doc_wrapping)))
     = [(80, 20, 23, 16, ''u''), (103, 20, 37, 16, ''q''), (113, 20, 27, 16, ''30'')]
   \<and> pdf_y (pdf (appendColTo ex_env (snd (Prepare ex_described)) ex_options ex_doc_wrapping))
       = 36"
  by code_simp

end
